theory Spec2Isabelle
  imports Main "HOL-Library.Sublist" "HOL-Library.Word"
begin

section \<open>Strings, bytes and exceptions\<close>

text \<open>
  A Python \<open>str\<close> is a sequence of Unicode code points: \<open>len\<close>, slicing and
  \<open>strip\<close> count code points, so a string is a list of code points here. \<open>ascii\<close>
  turns an ASCII literal into such a list. A \<open>bytes\<close> value is a list of octets.
\<close>

type_synonym py_str = "nat list"

type_synonym bytes = "8 word list"

definition ascii :: "string \<Rightarrow> py_str" where
  "ascii s = map of_char s"

text \<open>
  The whitespace of \<open>str.strip()\<close> and of \<open>\s\<close> in a \<open>str\<close> pattern is the same
  set, the code points for which \<open>str.isspace()\<close> holds.
\<close>

definition isspace :: "nat \<Rightarrow> bool" where
  "isspace c \<longleftrightarrow>
     (9 \<le> c \<and> c \<le> 13) \<or> (28 \<le> c \<and> c \<le> 32) \<or> c = 133 \<or> c = 160 \<or> c = 5760 \<or>
     (8192 \<le> c \<and> c \<le> 8202) \<or> c = 8232 \<or> c = 8233 \<or> c = 8239 \<or> c = 8287 \<or>
     c = 12288"

definition strip :: "py_str \<Rightarrow> py_str" where
  "strip s = rev (dropWhile isspace (rev (dropWhile isspace s)))"

text \<open>Decimal rendering of a count, as an f-string does it.\<close>

function str_nat :: "nat \<Rightarrow> py_str" where
  "str_nat n = (if n < 10 then [48 + n] else str_nat (n div 10) @ [48 + n mod 10])"
  by pat_completeness auto
termination
  by (relation "measure id") auto

declare str_nat.simps [simp del]

text \<open>
  An exception value: \<open>except RuntimeError\<close> and \<open>except json.JSONDecodeError\<close>
  dispatch on the class, \<open>type(e).__name__\<close> reads the class name and \<open>str(e)\<close> the
  message. These are the exceptions of \<open>services.py\<close> and of the libraries it calls;
  the \<open>HTTPException\<close> of the routing layer is a type of its own below.
\<close>

datatype exn_kind = RuntimeError | JSONDecodeError | OtherException

datatype py_exn = PyExn (exn_kind: exn_kind) (exn_type_name: py_str) (exn_str: py_str)

section \<open>The response normalizer (\<open>clean_json_response\<close>)\<close>

definition fence :: py_str where
  "fence = ascii ''```''"

definition fence_json :: py_str where
  "fence_json = ascii ''```json''"

text \<open>
  \<open>re.sub(r'^```json\s*', '', s)\<close>: without \<open>re.MULTILINE\<close> the anchor matches at
  position 0 only, and \<open>\s*\<close> is greedy.
\<close>

definition re_sub_fence_json :: "py_str \<Rightarrow> py_str" where
  "re_sub_fence_json s =
     (if prefix fence_json s then dropWhile isspace (drop (length fence_json) s) else s)"

text \<open>\<open>re.sub(r'^```\s*', '', s)\<close>.\<close>

definition re_sub_fence_open :: "py_str \<Rightarrow> py_str" where
  "re_sub_fence_open s =
     (if prefix fence s then dropWhile isspace (drop (length fence) s) else s)"

text \<open>
  \<open>re.sub(r'\s*```$', '', s)\<close>: \<open>$\<close> matches at the end of the string and just before
  a newline that ends the string; the leftmost match starts where the whitespace run in
  front of the closing fence starts.
\<close>

definition re_sub_fence_close :: "py_str \<Rightarrow> py_str" where
  "re_sub_fence_close s =
     (if suffix fence s then rev (dropWhile isspace (drop (length fence) (rev s)))
      else if suffix (fence @ [10]) s
        then rev (dropWhile isspace (drop (length fence + 1) (rev s))) @ [10]
      else s)"

definition clean_json_response :: "py_str \<Rightarrow> py_str" where
  "clean_json_response text0 =
     (let text1 = re_sub_fence_json (strip text0);
          text2 = re_sub_fence_open (strip text1);
          text3 = re_sub_fence_close (strip text2)
      in strip text3)"

section \<open>The PDF text extractor (\<open>extract_text_from_pdf\<close>)\<close>

text \<open>
  The collaborators are parameters. A page of the parsed document gives its embedded text
  (or raises) and the text that rendering it and running the recognition gives (or
  raises). \<open>fitz_open\<close> parses the bytes, \<open>generate_content\<close> is the model call and
  returns \<open>response.text\<close>, which the client library may leave \<open>None\<close>.
\<close>

record page =
  get_text :: "py_exn + py_str"
  image_to_string :: "py_exn + py_str"

datatype json =
    JNull
  | JBool bool
  | JInt int
  | JFloat py_str
  | JString py_str
  | JArray "json list"
  | JObject "(py_str \<times> json) list"

record env =
  fitz_open :: "bytes \<Rightarrow> py_exn + page list"
  OCR_AVAILABLE :: bool
  generate_content :: "py_str \<Rightarrow> py_exn + py_str option"
  json_loads :: "py_str \<Rightarrow> py_exn + json"

text \<open>The loop over the pages, \<open>text\<close> being the accumulator.\<close>

fun extract_pages :: "bool \<Rightarrow> page list \<Rightarrow> py_str \<Rightarrow> py_exn + py_str" where
  "extract_pages ocr [] text = Inr text"
| "extract_pages ocr (p # ps) text =
     (case get_text p of
        Inl e \<Rightarrow> Inl e
      | Inr page_text \<Rightarrow>
          extract_pages ocr ps
            (text @
             (if ocr \<and> length (strip page_text) < 50
              then (case image_to_string p of Inl ocr_error \<Rightarrow> page_text | Inr t \<Rightarrow> t)
              else page_text) @ [10]))"

definition no_text_message :: py_str where
  "no_text_message =
     ascii ''No text extracted from PDF. PDF might be empty, corrupted, or require OCR.''"

definition runtime_error :: "py_str \<Rightarrow> py_exn" where
  "runtime_error msg = PyExn RuntimeError (ascii ''RuntimeError'') msg"

text \<open>The body of the \<open>try\<close> block.\<close>

definition extract_text_body :: "env \<Rightarrow> bytes \<Rightarrow> bool \<Rightarrow> py_exn + py_str" where
  "extract_text_body e pdf_bytes use_ocr =
     (case fitz_open e pdf_bytes of
        Inl ex \<Rightarrow> Inl ex
      | Inr pages \<Rightarrow>
          (case extract_pages (use_ocr \<and> OCR_AVAILABLE e) pages [] of
             Inl ex \<Rightarrow> Inl ex
           | Inr text \<Rightarrow>
               if text = [] \<or> length (strip text) < 10
               then Inl (runtime_error no_text_message)
               else Inr (strip text)))"

definition extract_text_from_pdf :: "env \<Rightarrow> bytes \<Rightarrow> bool \<Rightarrow> py_exn + py_str" where
  "extract_text_from_pdf e pdf_bytes use_ocr =
     (case extract_text_body e pdf_bytes use_ocr of
        Inl ex \<Rightarrow> Inl (runtime_error (ascii ''PDF text extraction failed: '' @ exn_str ex))
      | Inr text \<Rightarrow> Inr text)"

section \<open>The orchestrator (\<open>extract_from_pdf\<close>)\<close>

text \<open>The result dictionary: a key that a branch does not set is \<open>None\<close>.\<close>

record extraction_result =
  success :: "bool option"
  data :: "json option"
  error :: "py_str option"
  details :: "py_str option"
  exn_type :: "py_str option"
  gemini_response :: "py_str option"
  parse_error :: "py_str option"
  raw_text_preview :: "py_str option"

definition empty_result :: extraction_result where
  "empty_result =
     \<lparr>success = None, data = None, error = None, details = None, exn_type = None,
      gemini_response = None, parse_error = None, raw_text_preview = None\<rparr>"

definition prompt :: "py_str \<Rightarrow> py_str" where
  "prompt text =
     ascii ''Extract information from this document and return ONLY a JSON object (no markdown, no explanation).''
     @ [10, 10] @ ascii ''Required fields:''
     @ [10] @ ascii ''- invoice_number: string (or null if not found)''
     @ [10] @ ascii ''- date: string in format '' @ [34] @ ascii ''DD MMM YYYY'' @ [34]
       @ ascii '' (or null)''
     @ [10] @ ascii ''- vendor: string (or null)''
     @ [10] @ ascii ''- total_amount: string (or null)''
     @ [10] @ ascii ''- currency: string (3-letter code like USD, EUR, or null)''
     @ [10, 10] @ ascii ''Document text:''
     @ [10] @ text
     @ [10, 10] @ ascii ''Return ONLY the JSON object, nothing else:''"

text \<open>The two outer handlers: \<open>except RuntimeError\<close>, then \<open>except Exception\<close>.\<close>

definition outer_handlers :: "py_exn \<Rightarrow> extraction_result" where
  "outer_handlers ex =
     (if exn_kind ex = RuntimeError
      then empty_result\<lparr>success := Some False, error := Some (ascii ''PDF processing failed''),
             details := Some (exn_str ex)\<rparr>
      else empty_result\<lparr>success := Some False, error := Some (ascii ''Unexpected error''),
             details := Some (exn_str ex), exn_type := Some (exn_type_name ex)\<rparr>)"

definition none_has_no_strip :: py_exn where
  "none_has_no_strip =
     PyExn OtherException (ascii ''AttributeError'')
       ([39] @ ascii ''NoneType'' @ [39] @ ascii '' object has no attribute '' @ [39]
        @ ascii ''strip'' @ [39])"

text \<open>
  The second component is the list of prompts sent to the model collaborator during the
  call, in order: the only effect of the orchestrator.
\<close>

definition extract_from_pdf :: "env \<Rightarrow> bytes \<Rightarrow> bool \<Rightarrow> extraction_result \<times> py_str list" where
  "extract_from_pdf e pdf_bytes use_ocr =
     (case extract_text_from_pdf e pdf_bytes use_ocr of
        Inl ex \<Rightarrow> (outer_handlers ex, [])
      | Inr text \<Rightarrow>
          (case generate_content e (prompt text) of
             Inl ex \<Rightarrow> (outer_handlers ex, [prompt text])
           | Inr None \<Rightarrow> (outer_handlers none_has_no_strip, [prompt text])
           | Inr (Some response_text) \<Rightarrow>
               (let cleaned_text = clean_json_response response_text
                in case json_loads e cleaned_text of
                     Inr extracted \<Rightarrow>
                       (empty_result\<lparr>success := Some True, data := Some extracted,
                          raw_text_preview := Some (take 200 text)\<rparr>, [prompt text])
                   | Inl ex \<Rightarrow>
                       if exn_kind ex = JSONDecodeError
                       then (empty_result\<lparr>success := Some False,
                               error := Some (ascii ''Failed to parse JSON from Gemini''),
                               gemini_response := Some cleaned_text,
                               parse_error := Some (exn_str ex),
                               raw_text_preview := Some (take 200 text)\<rparr>, [prompt text])
                       else (outer_handlers ex, [prompt text]))))"

section \<open>The stored files and the analyze operations (\<open>routes.py\<close>)\<close>

datatype status = Pending | Analyzing | Completed | Failed

record uploaded_file =
  file_id :: int
  filename :: py_str
  file_size :: nat
  file_type :: py_str
  status :: status
  upload_time :: nat
  file_content :: bytes
  extracted_data :: "py_str option"
  error_message :: "py_str option"

datatype http_exception = HTTPException (status_code: nat) (detail: py_str)

text \<open>
  The table is the list of its rows, in the order a \<open>select\<close> returns them.
  \<open>update().where(id == i).values(...)\<close> rewrites every row with that id and touches
  only the columns named.
\<close>

definition update_where ::
  "int \<Rightarrow> (uploaded_file \<Rightarrow> uploaded_file) \<Rightarrow> uploaded_file list \<Rightarrow> uploaded_file list" where
  "update_where i f db = map (\<lambda>r. if file_id r = i then f r else r) db"

definition status_str :: "status \<Rightarrow> py_str" where
  "status_str s =
     (case s of Pending \<Rightarrow> ascii ''pending'' | Analyzing \<Rightarrow> ascii ''analyzing''
      | Completed \<Rightarrow> ascii ''completed'' | Failed \<Rightarrow> ascii ''failed'')"

text \<open>\<open>extracted.get("success", False)\<close> as a condition.\<close>

definition succeeded :: "extraction_result \<Rightarrow> bool" where
  "succeeded extracted = (success extracted = Some True)"

definition get_error :: "extraction_result \<Rightarrow> py_str" where
  "get_error extracted =
     (case error extracted of None \<Rightarrow> ascii ''Unknown error'' | Some m \<Rightarrow> m)"

definition get_data :: "extraction_result \<Rightarrow> json" where
  "get_data extracted = (case data extracted of None \<Rightarrow> JObject [] | Some d \<Rightarrow> d)"

record analyze_response =
  resp_id :: int
  resp_status :: py_str
  resp_extracted :: extraction_result
  resp_message :: py_str

text \<open>
  \<open>analyze_file\<close>. The orchestrator is a parameter: it returns a result dictionary or
  raises. \<open>json_dumps\<close> is the serializer. The \<open>HTTPException\<close>s are the ones the function
  raises itself, which its \<open>except HTTPException: raise\<close> lets through; the storage
  collaborator is taken to execute every statement.
\<close>

definition analyze_file ::
  "(json \<Rightarrow> py_str) \<Rightarrow> (bytes \<Rightarrow> py_exn + extraction_result) \<Rightarrow> uploaded_file list \<Rightarrow> int
     \<Rightarrow> uploaded_file list \<times> (http_exception + analyze_response)" where
  "analyze_file json_dumps orchestrator db fid =
     (case find (\<lambda>r. file_id r = fid) db of
        None \<Rightarrow> (db, Inl (HTTPException 404 (ascii ''File not found'')))
      | Some result \<Rightarrow>
          if file_content result = []
          then (db, Inl (HTTPException 400 (ascii ''File content not found'')))
          else
            (let db1 = update_where fid (\<lambda>r. r\<lparr>status := Analyzing\<rparr>) db
             in case orchestrator (file_content result) of
                  Inl ex \<Rightarrow>
                    (update_where fid
                       (\<lambda>r. r\<lparr>status := Failed, error_message := Some (exn_str ex)\<rparr>) db1,
                     Inl (HTTPException 500 (exn_str ex)))
                | Inr extracted \<Rightarrow>
                    if succeeded extracted
                    then (update_where fid
                            (\<lambda>r. r\<lparr>status := Completed,
                                   extracted_data := Some (json_dumps (get_data extracted))\<rparr>) db1,
                          Inr \<lparr>resp_id = fid, resp_status = ascii ''completed'',
                               resp_extracted = extracted,
                               resp_message = ascii ''Analysis completed successfully''\<rparr>)
                    else (update_where fid
                            (\<lambda>r. r\<lparr>status := Failed,
                                   error_message := Some (get_error extracted)\<rparr>) db1,
                          Inr \<lparr>resp_id = fid, resp_status = ascii ''failed'',
                               resp_extracted = extracted,
                               resp_message = ascii ''Analysis failed''\<rparr>)))"

record sweep_entry =
  entry_id :: int
  entry_filename :: py_str
  entry_status :: py_str
  entry_error :: "py_str option"

record sweep_response =
  message :: py_str
  analyzed_count :: nat
  total_processed :: "nat option"
  results :: "sweep_entry list option"

text \<open>
  The loop of \<open>analyze_all_pending\<close> over the rows selected before it starts; the table,
  \<open>analyzed_count\<close> and \<open>results\<close> are the state it threads.
\<close>

fun sweep_loop ::
  "(json \<Rightarrow> py_str) \<Rightarrow> (bytes \<Rightarrow> py_exn + extraction_result) \<Rightarrow> uploaded_file list
     \<Rightarrow> uploaded_file list \<Rightarrow> nat \<Rightarrow> sweep_entry list
     \<Rightarrow> uploaded_file list \<times> nat \<times> sweep_entry list" where
  "sweep_loop json_dumps orchestrator [] db analyzed res = (db, analyzed, res)"
| "sweep_loop json_dumps orchestrator (file # files) db analyzed res =
     (let db1 = update_where (file_id file) (\<lambda>r. r\<lparr>status := Analyzing\<rparr>) db
      in case orchestrator (file_content file) of
           Inl ex \<Rightarrow>
             sweep_loop json_dumps orchestrator files
               (update_where (file_id file)
                  (\<lambda>r. r\<lparr>status := Failed, error_message := Some (exn_str ex)\<rparr>) db1)
               analyzed
               (res @ [\<lparr>entry_id = file_id file, entry_filename = filename file,
                         entry_status = ascii ''failed'', entry_error = Some (exn_str ex)\<rparr>])
         | Inr extracted \<Rightarrow>
             if succeeded extracted
             then sweep_loop json_dumps orchestrator files
                    (update_where (file_id file)
                       (\<lambda>r. r\<lparr>status := Completed,
                              extracted_data := Some (json_dumps (get_data extracted))\<rparr>) db1)
                    (analyzed + 1)
                    (res @ [\<lparr>entry_id = file_id file, entry_filename = filename file,
                              entry_status = ascii ''completed'', entry_error = None\<rparr>])
             else sweep_loop json_dumps orchestrator files
                    (update_where (file_id file)
                       (\<lambda>r. r\<lparr>status := Failed,
                              error_message := Some (get_error extracted)\<rparr>) db1)
                    analyzed
                    (res @ [\<lparr>entry_id = file_id file, entry_filename = filename file,
                              entry_status = ascii ''failed'', entry_error = None\<rparr>]))"

definition analyze_all_pending ::
  "(json \<Rightarrow> py_str) \<Rightarrow> (bytes \<Rightarrow> py_exn + extraction_result) \<Rightarrow> uploaded_file list
     \<Rightarrow> uploaded_file list \<times> sweep_response" where
  "analyze_all_pending json_dumps orchestrator db =
     (let pending_files = filter (\<lambda>r. status r = Pending) db
      in if pending_files = []
         then (db, \<lparr>message = ascii ''No pending files to analyze'', analyzed_count = 0,
                    total_processed = None, results = None\<rparr>)
         else (case sweep_loop json_dumps orchestrator pending_files db 0 [] of
                 (db', analyzed, res) \<Rightarrow>
                   (db', \<lparr>message = ascii ''Analysis completed for '' @ str_nat analyzed
                                     @ ascii '' files'',
                          analyzed_count = analyzed,
                          total_processed = Some (length pending_files),
                          results = Some res\<rparr>)))"

section \<open>Concrete inputs\<close>

text \<open>Inputs at which the theorems below are evaluated.\<close>

definition example_file :: uploaded_file where
  "example_file =
     \<lparr>file_id = 1, filename = ascii ''invoice.pdf'', file_size = 4,
      file_type = ascii ''application/pdf'', status = Pending, upload_time = 0,
      file_content = [37, 80, 68, 70], extracted_data = None, error_message = None\<rparr>"

definition example_page :: page where
  "example_page =
     \<lparr>get_text = Inr (ascii ''Invoice 42 total 10 USD''),
      image_to_string = Inl (PyExn OtherException (ascii ''TesseractError'') (ascii ''no engine''))\<rparr>"

definition short_page :: page where
  "short_page = \<lparr>get_text = Inr (ascii '' abc ''), image_to_string = Inr (ascii ''scanned text of the page'')\<rparr>"

definition example_loads :: "py_str \<Rightarrow> py_exn + json" where
  "example_loads s =
     (if s = ascii ''{}'' then Inr (JObject [])
      else Inl (PyExn JSONDecodeError (ascii ''JSONDecodeError'') (ascii ''Expecting value'')))"

definition env_ok :: env where
  "env_ok =
     \<lparr>fitz_open = (\<lambda>b. Inr [example_page]), OCR_AVAILABLE = False,
      generate_content = (\<lambda>p. Inr (Some (fence_json @ [10] @ ascii ''{}'' @ [10] @ fence))),
      json_loads = example_loads\<rparr>"

definition env_not_json :: env where
  "env_not_json = env_ok\<lparr>generate_content := (\<lambda>p. Inr (Some (ascii ''not json'')))\<rparr>"

definition env_corrupt :: env where
  "env_corrupt =
     env_ok\<lparr>fitz_open := (\<lambda>b. Inl (PyExn OtherException (ascii ''FileDataError'') (ascii ''Failed to open stream'')))\<rparr>"

definition env_short :: env where
  "env_short = env_ok\<lparr>fitz_open := (\<lambda>b. Inr [short_page])\<rparr>"

section \<open>Evaluation and basic facts\<close>

lemmas string_defs = ascii_def isspace_def strip_def fence_def fence_json_def
  re_sub_fence_json_def re_sub_fence_open_def re_sub_fence_close_def clean_json_response_def Let_def
  suffix_to_prefix

lemma extract_pages_no_ocr:
  "map get_text pages = map Inr texts \<Longrightarrow>
   extract_pages False pages acc = Inr (acc @ concat (map (\<lambda>t. t @ [10]) texts))"
  by (induction pages arbitrary: acc texts) auto

lemma extract_text_is_runtime_error:
  "extract_text_from_pdf e b ocr = Inl ex \<Longrightarrow> exn_kind ex = RuntimeError"
  by (auto simp: extract_text_from_pdf_def runtime_error_def split: sum.splits)

section \<open>The orchestrator and the extractor\<close>

text \<open>
  C4. When the extractor yields text and the model's reply, once normalized, decodes as
  JSON, the orchestrator returns \<open>success = True\<close>, the decoded value as \<open>data\<close> and the
  first 200 characters of the extracted text as \<open>raw_text_preview\<close>; no other key is set.
\<close>

theorem orchestrator_success:
  assumes "extract_text_from_pdf e pdf_bytes use_ocr = Inr text"
    and "generate_content e (prompt text) = Inr (Some reply)"
    and "json_loads e (clean_json_response reply) = Inr extracted"
  shows "fst (extract_from_pdf e pdf_bytes use_ocr)
           = empty_result\<lparr>success := Some True, data := Some extracted,
               raw_text_preview := Some (take 200 text)\<rparr>"
  using assms by (simp add: extract_from_pdf_def)

theorem orchestrator_success_witness:
  "fst (extract_from_pdf env_ok [37, 80, 68, 70] False)
     = empty_result\<lparr>success := Some True, data := Some (JObject []),
         raw_text_preview := Some (ascii ''Invoice 42 total 10 USD'')\<rparr>"
proof -
  have a: "extract_text_from_pdf env_ok [37, 80, 68, 70] False = Inr (ascii ''Invoice 42 total 10 USD'')"
    by (simp add: extract_text_from_pdf_def extract_text_body_def env_ok_def example_page_def string_defs)
  have b: "generate_content env_ok (prompt (ascii ''Invoice 42 total 10 USD''))
             = Inr (Some (fence_json @ [10] @ ascii ''{}'' @ [10] @ fence))"
    by (simp add: env_ok_def)
  have c: "json_loads env_ok (clean_json_response (fence_json @ [10] @ ascii ''{}'' @ [10] @ fence)) = Inr (JObject [])"
    by (simp add: env_ok_def example_loads_def string_defs)
  have d: "take 200 (ascii ''Invoice 42 total 10 USD'') = ascii ''Invoice 42 total 10 USD''"
    by (simp add: ascii_def)
  show ?thesis using orchestrator_success [OF a b c] by (simp only: d)
qed


text \<open>
  C5. When the extractor yields text and decoding the normalized reply raises
  \<open>JSONDecodeError\<close>, the orchestrator returns \<open>success = False\<close> with the error
  \<open>Failed to parse JSON from Gemini\<close>, the cleaned candidate text, the message of the
  parse error and the preview of the extracted text.
\<close>

theorem orchestrator_parse_failure:
  assumes "extract_text_from_pdf e pdf_bytes use_ocr = Inr text"
    and "generate_content e (prompt text) = Inr (Some reply)"
    and "json_loads e (clean_json_response reply) = Inl ex"
    and "exn_kind ex = JSONDecodeError"
  shows "fst (extract_from_pdf e pdf_bytes use_ocr)
           = empty_result\<lparr>success := Some False,
               error := Some (ascii ''Failed to parse JSON from Gemini''),
               gemini_response := Some (clean_json_response reply),
               parse_error := Some (exn_str ex),
               raw_text_preview := Some (take 200 text)\<rparr>"
  using assms by (simp add: extract_from_pdf_def)

theorem orchestrator_parse_failure_witness:
  "fst (extract_from_pdf env_not_json [37, 80, 68, 70] False)
     = empty_result\<lparr>success := Some False,
         error := Some (ascii ''Failed to parse JSON from Gemini''),
         gemini_response := Some (ascii ''not json''),
         parse_error := Some (ascii ''Expecting value''),
         raw_text_preview := Some (ascii ''Invoice 42 total 10 USD'')\<rparr>"
proof -
  let ?ex = "PyExn JSONDecodeError (ascii ''JSONDecodeError'') (ascii ''Expecting value'')"
  have a: "extract_text_from_pdf env_not_json [37, 80, 68, 70] False
             = Inr (ascii ''Invoice 42 total 10 USD'')"
    by (simp add: extract_text_from_pdf_def extract_text_body_def env_not_json_def env_ok_def
          example_page_def string_defs)
  have b: "generate_content env_not_json (prompt (ascii ''Invoice 42 total 10 USD''))
             = Inr (Some (ascii ''not json''))"
    by (simp add: env_not_json_def)
  have n: "clean_json_response (ascii ''not json'') = ascii ''not json''"
    by (simp add: string_defs)
  have c: "json_loads env_not_json (clean_json_response (ascii ''not json'')) = Inl ?ex"
    unfolding n by (simp add: env_not_json_def env_ok_def example_loads_def ascii_def)
  have k: "exn_kind ?ex = JSONDecodeError"
    by simp
  have d: "take 200 (ascii ''Invoice 42 total 10 USD'') = ascii ''Invoice 42 total 10 USD''"
    by (simp add: ascii_def)
  show ?thesis using orchestrator_parse_failure [OF a b c k] by (simp only: d n py_exn.sel)
qed

text \<open>
  C6. When the extractor fails, the orchestrator returns \<open>success = False\<close> with the
  error \<open>PDF processing failed\<close> and the extractor's message as \<open>details\<close>, and no
  prompt has been sent to the model collaborator.
\<close>

theorem orchestrator_pdf_failure:
  assumes "extract_text_from_pdf e pdf_bytes use_ocr = Inl ex"
  shows "extract_from_pdf e pdf_bytes use_ocr
           = (empty_result\<lparr>success := Some False,
                error := Some (ascii ''PDF processing failed''),
                details := Some (exn_str ex)\<rparr>, [])"
  using assms extract_text_is_runtime_error [OF assms]
  by (simp add: extract_from_pdf_def outer_handlers_def)

theorem orchestrator_pdf_failure_witness:
  "extract_from_pdf env_corrupt [0, 1, 2] False
     = (empty_result\<lparr>success := Some False,
          error := Some (ascii ''PDF processing failed''),
          details := Some (ascii ''PDF text extraction failed: Failed to open stream'')\<rparr>, [])"
proof -
  let ?ex = "runtime_error (ascii ''PDF text extraction failed: Failed to open stream'')"
  have a: "extract_text_from_pdf env_corrupt [0, 1, 2] False = Inl ?ex"
    by (simp add: extract_text_from_pdf_def extract_text_body_def env_corrupt_def env_ok_def
          ascii_def)
  show ?thesis using orchestrator_pdf_failure [OF a] by (simp add: runtime_error_def)
qed

text \<open>
  C7. With OCR disabled, a document whose combined page text, trimmed, has fewer than 10
  characters (none included) makes \<open>extract_text_from_pdf\<close> raise a \<open>RuntimeError\<close>;
  a failure of the parser raises the same class; both messages carry the underlying
  message after the prefix \<open>PDF text extraction failed: \<close>.
\<close>

theorem extract_text_failures:
  "(fitz_open e1 b1 = Inr pages \<and> map get_text pages = map Inr texts
      \<and> length (strip (concat (map (\<lambda>t. t @ [10]) texts))) < 10
    \<longrightarrow> extract_text_from_pdf e1 b1 False
          = Inl (runtime_error (ascii ''PDF text extraction failed: '' @ no_text_message)))
   \<and> (fitz_open e2 b2 = Inl ex
    \<longrightarrow> extract_text_from_pdf e2 b2 use_ocr
          = Inl (runtime_error (ascii ''PDF text extraction failed: '' @ exn_str ex)))"
  by (auto simp: extract_text_from_pdf_def extract_text_body_def extract_pages_no_ocr
        runtime_error_def)

theorem extract_text_failures_witness:
  "extract_text_from_pdf env_short [37, 80, 68, 70] False
     = Inl (runtime_error (ascii ''PDF text extraction failed: '' @ no_text_message))
   \<and> extract_text_from_pdf env_corrupt [0, 1, 2] True
     = Inl (runtime_error (ascii ''PDF text extraction failed: Failed to open stream''))"
proof -
  let ?ex = "PyExn OtherException (ascii ''FileDataError'') (ascii ''Failed to open stream'')"
  have a: "fitz_open env_short [37, 80, 68, 70] = Inr [short_page]"
    by (simp add: env_short_def)
  have b: "map get_text [short_page] = map Inr [ascii '' abc '']"
    by (simp add: short_page_def)
  have c: "length (strip (concat (map (\<lambda>t. t @ [10]) [ascii '' abc '']))) < 10"
    by (simp add: string_defs)
  have d: "fitz_open env_corrupt [0, 1, 2] = Inl ?ex"
    by (simp add: env_corrupt_def)
  have m: "ascii ''PDF text extraction failed: '' @ exn_str ?ex
             = ascii ''PDF text extraction failed: Failed to open stream''"
    by (simp add: ascii_def)
  show ?thesis
    using extract_text_failures [of env_short "[37, 80, 68, 70]" "[short_page]"
        "[ascii '' abc '']" env_corrupt "[0, 1, 2]" ?ex True] a b c d
    by (simp only: m simp_thms)
qed

section \<open>The analyze operations\<close>

text \<open>
  C10. For a file id that no stored row has, \<open>analyze_file\<close> raises the 404
  \<open>File not found\<close> and the table is returned as it was: no update has been issued.
\<close>

theorem analyze_file_not_found:
  assumes "fid \<notin> file_id ` set db"
  shows "analyze_file json_dumps orchestrator db fid
           = (db, Inl (HTTPException 404 (ascii ''File not found'')))"
proof -
  have "find (\<lambda>r. file_id r = fid) db = None"
    using assms by (auto simp: find_None_iff)
  then show ?thesis by (simp add: analyze_file_def)
qed

theorem analyze_file_not_found_witness:
  "analyze_file (\<lambda>j. ascii ''{}'') (\<lambda>b. Inr empty_result) [example_file] 2
     = ([example_file], Inl (HTTPException 404 (ascii ''File not found'')))"
proof -
  have "(2::int) \<notin> file_id ` set [example_file]"
    by (simp add: example_file_def)
  then show ?thesis by (rule analyze_file_not_found)
qed

end
